theory Spec2Isabelle
  imports Main "HOL-Library.Word" "HOL-Library.Multiset"
begin

unbundle bit_operations_syntax

section \<open>TouchLib: the sensor array controller of \<^verbatim>\<open>src/TouchLib.h\<close>\<close>

text \<open>
  A shallow embedding of the class template \<^verbatim>\<open>TLSensors<N_SENSORS, N_MEASUREMENTS_PER_SENSOR>\<close>
  and of \<^verbatim>\<open>struct TLStruct\<close>.

  \<^item> \<^verbatim>\<open>uint8_t\<close>, \<^verbatim>\<open>uint16_t\<close>, \<^verbatim>\<open>uint32_t\<close> and \<^verbatim>\<open>unsigned long\<close> are
    \<open>8 word\<close>, \<open>16 word\<close>, \<open>32 word\<close> and \<open>32 word\<close>; \<^verbatim>\<open>int32_t\<close> is a \<open>32 word\<close> read with
    \<open>sint\<close>. \<^verbatim>\<open>int\<close> values that stay small (\<^verbatim>\<open>error\<close>, \<^verbatim>\<open>eepromOffset\<close>, addresses) are \<open>int\<close>.
  \<^item> \<^verbatim>\<open>float\<close> is the type parameter \<open>'f\<close>. The state machine and the filter use only its
    \<open>0\<close>, its arithmetic and its order; the persistence codec uses only the two \<^verbatim>\<open>memcpy\<close>
    calls between a \<^verbatim>\<open>float\<close> and a \<^verbatim>\<open>uint32_t\<close>, which are parameters of the codec.
  \<^item> The array \<^verbatim>\<open>data[N_SENSORS]\<close> is a store \<open>nat \<Rightarrow> 'f TLStruct\<close> indexed by the sensor
    number; the template parameter \<^verbatim>\<open>N_SENSORS\<close> is a parameter of the functions that loop
    up to it.
  \<^item> The EEPROM is a store \<open>int \<Rightarrow> 8 word\<close> from addresses to bytes. The code is the one
    compiled when \<^verbatim>\<open>EEPROM_h\<close> is defined.
  \<^item> Function pointers (the state-change callback, the hooks of the sample method) are
    parameters: state transformers, with \<open>None\<close> for \<^verbatim>\<open>NULL\<close>.
\<close>

subsection \<open>Data model\<close>

datatype ButtonState =
    buttonStatePreCalibrating
  | buttonStateCalibrating
  | buttonStateNoisePowerMeasurement
  | buttonStateReleased
  | buttonStateReleasedToApproached
  | buttonStateApproached
  | buttonStateApproachedToPressed
  | buttonStateApproachedToReleased
  | buttonStatePressed
  | buttonStatePressedToApproached
  | buttonStateMax

text \<open>The numeric value of the enumerators, used by the comparisons \<^verbatim>\<open><\<close>, \<^verbatim>\<open><=\<close>, \<^verbatim>\<open>>=\<close>.\<close>

fun stateNum :: "ButtonState \<Rightarrow> nat" where
  "stateNum buttonStatePreCalibrating = 0"
| "stateNum buttonStateCalibrating = 1"
| "stateNum buttonStateNoisePowerMeasurement = 2"
| "stateNum buttonStateReleased = 3"
| "stateNum buttonStateReleasedToApproached = 4"
| "stateNum buttonStateApproached = 5"
| "stateNum buttonStateApproachedToPressed = 6"
| "stateNum buttonStateApproachedToReleased = 7"
| "stateNum buttonStatePressed = 8"
| "stateNum buttonStatePressedToApproached = 9"
| "stateNum buttonStateMax = 10"

datatype Direction = directionNegative | directionPositive

datatype SampleType = sampleTypeNormal | sampleTypeInverted | sampleTypeDifferential

text \<open>
  \<^verbatim>\<open>struct TLStruct\<close>. The members that no modelled function reads or writes are left out
  (the union \<^verbatim>\<open>tlStructSampleMethod\<close>, \<^verbatim>\<open>pin\<close>, \<^verbatim>\<open>calibratedMaxDelta\<close>, \<^verbatim>\<open>referenceValue\<close>,
  \<^verbatim>\<open>scaleFactor\<close>, \<^verbatim>\<open>nSensors\<close>, \<^verbatim>\<open>recalCounter\<close>, \<^verbatim>\<open>disableSensor\<close>, and the function
  pointers, which are parameters). The member \<^verbatim>\<open>value\<close> is \<open>value'\<close>, and the member
  \<^verbatim>\<open>nMeasurementsPerSensor\<close> is \<open>sensorMeasurementsPerSensor\<close>.
\<close>

record 'f TLStruct =
  direction :: Direction
  sampleType :: SampleType
  releasedToApproachedThreshold :: 'f
  approachedToReleasedThreshold :: 'f
  approachedToPressedThreshold :: 'f
  pressedToApproachedThreshold :: 'f
  releasedToApproachedTime :: "32 word"
  approachedToReleasedTime :: "32 word"
  approachedToPressedTime :: "32 word"
  pressedToApproachedTime :: "32 word"
  enableSlewrateLimiter :: bool
  preCalibrationTime :: "32 word"
  calibrationTime :: "32 word"
  approachedTimeout :: "32 word"
  pressedTimeout :: "32 word"
  filterCoeff :: "16 word"
  forceCalibrationWhenReleasingFromApproached :: "32 word"
  forceCalibrationWhenApproachingFromReleased :: "32 word"
  forceCalibrationWhenApproachingFromPressed :: "32 word"
  forceCalibrationWhenPressing :: "32 word"
  setOffsetValueManually :: bool
  disableUpdateIfAnyButtonIsApproached :: bool
  disableUpdateIfAnyButtonIsPressed :: bool
  offsetValue :: 'f
  enableTouchStateMachine :: bool
  enableNoisePowerMeasurement :: bool
  sensorMeasurementsPerSensor :: "8 word"
  raw :: "32 word"
  value' :: 'f
  avg :: 'f
  delta :: 'f
  maxDelta :: 'f
  noisePower :: 'f
  buttonState :: ButtonState
  buttonStateLabel :: string
  buttonIsCalibrating :: bool
  buttonIsReleased :: bool
  buttonIsApproached :: bool
  buttonIsPressed :: bool
  forcedCal :: bool
  counter :: "32 word"
  noiseCounter :: "32 word"
  lastSampledAtTime :: "32 word"
  stateChangedAtTime :: "32 word"
  slewrateFirstSample :: bool
  stateIsBeingChanged :: bool

text \<open>The members of the class \<^verbatim>\<open>TLSensors\<close>.\<close>

record 'f TLSensors =
  data :: "nat \<Rightarrow> 'f TLStruct"
  nSensors :: "8 word"
  enableReadSettingsFromEeprom :: bool
  eepromOffset :: int
  scanOrder :: "8 word list"
  nMeasurementsPerSensor :: "8 word"
  error :: int
  useCustomScanOrder :: bool
  anyButtonIsApproached :: bool
  anyButtonIsPressed :: bool

type_synonym eeprom = "int \<Rightarrow> 8 word"

subsection \<open>Persistence codec\<close>

text \<open>The macros of the EEPROM format.\<close>

abbreviation (input) TL_EEPROM_KEY :: "8 word" where "TL_EEPROM_KEY \<equiv> 0xC7"
abbreviation (input) TL_EEPROM_FORMAT_VERSION :: int where "TL_EEPROM_FORMAT_VERSION \<equiv> 0"
abbreviation (input) TL_EEPROM_FORMAT_MASK :: int where "TL_EEPROM_FORMAT_MASK \<equiv> 0x7"
abbreviation (input) TL_EEPROM_FORMAT_SHIFT :: nat where "TL_EEPROM_FORMAT_SHIFT \<equiv> 5"
abbreviation (input) TL_EEPROM_N_SENSORS_MASK :: int where "TL_EEPROM_N_SENSORS_MASK \<equiv> 0x1F"
abbreviation (input) TL_EEPROM_N_SENSORS_SHIFT :: nat where "TL_EEPROM_N_SENSORS_SHIFT \<equiv> 0"
abbreviation (input) TL_EEPROM_CONFIG_ENABLE_SLEWRATE_LIMITER :: "8 word" where
  "TL_EEPROM_CONFIG_ENABLE_SLEWRATE_LIMITER \<equiv> 0x80"
abbreviation (input) TL_EEPROM_N_BYTES_OVERHEAD :: nat where
  "TL_EEPROM_N_BYTES_OVERHEAD \<equiv> 1 + 1 + 1 + 2"

text \<open>
  \<^verbatim>\<open>crcUpdate\<close>: the loop \<^verbatim>\<open>for (i = 0x80; i > 0; i >>= 1)\<close> runs over the eight bits of
  \<open>c\<close>, most significant first; \<open>crcStep\<close> is its body.
\<close>

definition crcStep :: "8 word \<Rightarrow> 8 word \<Rightarrow> 16 word \<Rightarrow> 16 word" where
  "crcStep c i crc =
     (let bit = (crc AND 0x8000 \<noteq> 0);
          bit = (if c AND i \<noteq> 0 then \<not> bit else bit);
          crc = push_bit 1 crc
      in if bit then crc XOR 0x1021 else crc)"

definition crcUpdate :: "16 word \<Rightarrow> 8 word \<Rightarrow> 16 word" where
  "crcUpdate crc c =
     fold (crcStep c) [0x80, 0x40, 0x20, 0x10, 0x08, 0x04, 0x02, 0x01] crc AND 0xffff"

text \<open>\<^verbatim>\<open>EEPROM_length\<close> returns \<^verbatim>\<open>E2END + 1\<close> as a \<^verbatim>\<open>uint16_t\<close>; \<^verbatim>\<open>E2END\<close> is a macro of the
  device header and a parameter here.\<close>

definition EEPROM_length :: "nat \<Rightarrow> 16 word" where
  "EEPROM_length E2END = of_nat (E2END + 1)"

definition EEPROM_update :: "eeprom \<Rightarrow> int \<Rightarrow> 8 word \<Rightarrow> eeprom" where
  "EEPROM_update e addr b = (if e addr \<noteq> b then e(addr := b) else e)"

text \<open>
  \<^verbatim>\<open>readFloatFromEeprom\<close> and \<^verbatim>\<open>writeFloatToEeprom\<close>: \<open>k\<close> runs from \<^verbatim>\<open>sizeof(float)\<close> = 4
  down to 1. \<open>u2f\<close> is \<^verbatim>\<open>memcpy(&f, &i, sizeof(float))\<close> and \<open>f2u\<close> is
  \<^verbatim>\<open>memcpy(&i, &f, sizeof(float))\<close>. The result carries the advanced \<^verbatim>\<open>*addr\<close> and \<^verbatim>\<open>*crc\<close>.
\<close>

definition readFloatFromEeprom ::
  "(32 word \<Rightarrow> 'f) \<Rightarrow> eeprom \<Rightarrow> int \<Rightarrow> 16 word \<Rightarrow> 'f \<times> int \<times> 16 word" where
  "readFloatFromEeprom u2f e addr crc =
     (let (i, addr, crc) =
        fold (\<lambda>k (i, addr, crc).
                let tmp = e addr;
                    crc = crcUpdate crc tmp;
                    addr = addr + 1;
                    i = i OR push_bit ((k - 1) * 8) (ucast tmp :: 32 word)
                in (i, addr, crc))
             [4, 3, 2, 1 :: nat] (0, addr, crc)
      in (u2f i, addr, crc))"

definition writeFloatToEeprom ::
  "('f \<Rightarrow> 32 word) \<Rightarrow> 'f \<Rightarrow> eeprom \<Rightarrow> int \<Rightarrow> 16 word \<Rightarrow> eeprom \<times> int \<times> 16 word" where
  "writeFloatToEeprom f2u f e addr crc =
     (let i = f2u f in
      fold (\<lambda>k (e, addr, crc).
              let tmp = (ucast (drop_bit ((k - 1) * 8) i AND 0xFF) :: 8 word);
                  crc = crcUpdate crc tmp;
                  e = EEPROM_update e addr tmp;
                  addr = addr + 1
              in (e, addr, crc))
           [4, 3, 2, 1 :: nat] (e, addr, crc))"

definition readSensorSettingFromEeprom ::
  "(32 word \<Rightarrow> 'f) \<Rightarrow> eeprom \<Rightarrow> nat \<Rightarrow> int \<Rightarrow> 16 word \<Rightarrow> bool \<Rightarrow> 'f TLSensors
     \<Rightarrow> 'f TLSensors \<times> int \<times> 16 word" where
  "readSensorSettingFromEeprom u2f e n addr crc applySettings s =
     (if applySettings then
        let (f, addr, crc) = readFloatFromEeprom u2f e addr crc;
            s = s\<lparr>data := (data s)(n := (data s n)\<lparr>releasedToApproachedThreshold := f\<rparr>)\<rparr>;
            (f, addr, crc) = readFloatFromEeprom u2f e addr crc;
            s = s\<lparr>data := (data s)(n := (data s n)\<lparr>approachedToReleasedThreshold := f\<rparr>)\<rparr>;
            (f, addr, crc) = readFloatFromEeprom u2f e addr crc;
            s = s\<lparr>data := (data s)(n := (data s n)\<lparr>approachedToPressedThreshold := f\<rparr>)\<rparr>;
            (f, addr, crc) = readFloatFromEeprom u2f e addr crc;
            s = s\<lparr>data := (data s)(n := (data s n)\<lparr>pressedToApproachedThreshold := f\<rparr>)\<rparr>
        in (s, addr, crc)
      else
        let (f, addr, crc) = readFloatFromEeprom u2f e addr crc;
            (f, addr, crc) = readFloatFromEeprom u2f e addr crc;
            (f, addr, crc) = readFloatFromEeprom u2f e addr crc;
            (f, addr, crc) = readFloatFromEeprom u2f e addr crc
        in (s, addr, crc))"

definition writeSensorSettingToEeprom ::
  "('f \<Rightarrow> 32 word) \<Rightarrow> 'f TLSensors \<Rightarrow> nat \<Rightarrow> eeprom \<Rightarrow> int \<Rightarrow> 16 word
     \<Rightarrow> eeprom \<times> int \<times> 16 word" where
  "writeSensorSettingToEeprom f2u s n e addr crc =
     (let f = releasedToApproachedThreshold (data s n);
          (e, addr, crc) = writeFloatToEeprom f2u f e addr crc;
          f = approachedToReleasedThreshold (data s n);
          (e, addr, crc) = writeFloatToEeprom f2u f e addr crc;
          f = approachedToPressedThreshold (data s n);
          (e, addr, crc) = writeFloatToEeprom f2u f e addr crc;
          f = pressedToApproachedThreshold (data s n)
      in writeFloatToEeprom f2u f e addr crc)"

definition eepromSizeRequired :: "'f TLSensors \<Rightarrow> 16 word" where
  "eepromSizeRequired s = of_nat (unat (nSensors s) * 4 * 4 + TL_EEPROM_N_BYTES_OVERHEAD)"

text \<open>
  \<^verbatim>\<open>writeSettingsToEeprom\<close>. The two capacity tests are computed in \<^verbatim>\<open>int\<close>, as the integer
  promotions make them (\<open>nSensors - 1\<close> is \<open>-1\<close> for no sensor). The result is the controller
  (its \<^verbatim>\<open>error\<close> may be set) and the EEPROM.
\<close>

definition writeSettingsToEeprom ::
  "('f \<Rightarrow> 32 word) \<Rightarrow> nat \<Rightarrow> 'f TLSensors \<Rightarrow> eeprom \<Rightarrow> 'f TLSensors \<times> eeprom" where
  "writeSettingsToEeprom f2u E2END s e =
     (let addr = eepromOffset s;
          crc = (0 :: 16 word);
          s = (if ((uint (nSensors s) - 1) AND TL_EEPROM_N_SENSORS_MASK) \<noteq> uint (nSensors s) - 1
               then s\<lparr>error := -28\<rparr> else s);
          s = (if eepromOffset s + uint (eepromSizeRequired s) > uint (EEPROM_length E2END)
               then s\<lparr>error := -28\<rparr> else s);
          tmp = e addr;
          s = (if error s = 0 \<and> tmp \<noteq> TL_EEPROM_KEY \<and> tmp \<noteq> 0xFF
               then s\<lparr>error := -5\<rparr> else s)
      in if error s = 0 then
           let tmp = TL_EEPROM_KEY;
               e = EEPROM_update e addr tmp;
               addr = addr + 1;
               crc = crcUpdate crc tmp;
               tmp = (word_of_int
                        (push_bit TL_EEPROM_FORMAT_SHIFT TL_EEPROM_FORMAT_VERSION OR
                         push_bit TL_EEPROM_N_SENSORS_SHIFT
                           ((uint (nSensors s) - 1) AND TL_EEPROM_N_SENSORS_MASK)) :: 8 word);
               e = EEPROM_update e addr tmp;
               addr = addr + 1;
               crc = crcUpdate crc tmp;
               (e, addr, crc) =
                 fold (\<lambda>n (e, addr, crc). writeSensorSettingToEeprom f2u s n e addr crc)
                      [0 ..< unat (nSensors s)] (e, addr, crc);
               e = EEPROM_update e addr (ucast (drop_bit 8 crc AND 0xFF));
               addr = addr + 1;
               e = EEPROM_update e addr (ucast (crc AND 0xFF))
           in (s, e)
         else (s, e))"

text \<open>
  \<^verbatim>\<open>readSettingsFromEeprom\<close>, in two parts. \<open>readSettingsVerify\<close> is the function up to and
  including the CRC test (the capacity tests, the key, the descriptor, the config byte, the
  dummy pass over the sensor blocks and the comparison with the stored CRC); its result is
  the controller and the locals \<^verbatim>\<open>tmpAddr\<close>, \<^verbatim>\<open>crc\<close>, \<^verbatim>\<open>crcEeprom\<close> and \<^verbatim>\<open>config\<close>.
  \<open>readSettingsFromEeprom\<close> then runs the last block \<^verbatim>\<open>if (error == 0) { ... }\<close>, the
  second pass that applies the settings.

  After \<^verbatim>\<open>config = EEPROM.read(addr++)\<close> the source updates the CRC with \<^verbatim>\<open>tmp\<close>, which still
  holds the descriptor byte; the model does the same.
\<close>

definition readSettingsVerify ::
  "(32 word \<Rightarrow> 'f) \<Rightarrow> nat \<Rightarrow> eeprom \<Rightarrow> 'f TLSensors
     \<Rightarrow> 'f TLSensors \<times> int \<times> 16 word \<times> 16 word \<times> 8 word" where
  "readSettingsVerify u2f E2END e s =
     (let addr = eepromOffset s;
          tmpAddr = eepromOffset s + 2;
          crc = (0 :: 16 word);
          crcEeprom = (0 :: 16 word);
          config = (0 :: 8 word);
          s = (if ((uint (nSensors s) - 1) AND TL_EEPROM_N_SENSORS_MASK) \<noteq> uint (nSensors s) - 1
               then s\<lparr>error := -28\<rparr> else s);
          s = (if eepromOffset s + uint (eepromSizeRequired s) > uint (EEPROM_length E2END)
               then s\<lparr>error := -28\<rparr> else s);
          tmp = e addr;
          addr = addr + 1;
          crc = crcUpdate crc tmp;
          s = (if error s = 0 \<and> tmp \<noteq> TL_EEPROM_KEY then s\<lparr>error := -5\<rparr> else s);
          (s, addr, crc, config) =
            (if error s = 0 then
               let tmp = e addr;
                   addr = addr + 1;
                   crc = crcUpdate crc tmp;
                   formatVersion = (drop_bit TL_EEPROM_FORMAT_SHIFT (uint tmp)) AND
                                     TL_EEPROM_FORMAT_MASK;
                   nSensorsEeprom = ((drop_bit TL_EEPROM_N_SENSORS_SHIFT (uint tmp)) AND
                                     TL_EEPROM_N_SENSORS_MASK) + 1;
                   config = e addr;
                   addr = addr + 1;
                   crc = crcUpdate crc tmp;
                   s = (if formatVersion \<noteq> TL_EEPROM_FORMAT_VERSION
                        then s\<lparr>error := -5\<rparr> else s);
                   s = (if nSensorsEeprom \<noteq> uint (nSensors s) then s\<lparr>error := -5\<rparr> else s)
               in (s, addr, crc, config)
             else (s, addr, crc, config))
      in if error s = 0 then
           let tmpAddr = addr;
               (s, addr, crc) =
                 fold (\<lambda>n (s, addr, crc). readSensorSettingFromEeprom u2f e n addr crc False s)
                      [0 ..< unat (nSensors s)] (s, addr, crc);
               tmp = e addr;
               addr = addr + 1;
               crcEeprom = (push_bit 8 (ucast tmp) :: 16 word);
               tmp = e addr;
               addr = addr + 1;
               crcEeprom = crcEeprom OR ucast tmp;
               s = (if crc \<noteq> crcEeprom then s\<lparr>error := -5\<rparr> else s)
           in (s, tmpAddr, crc, crcEeprom, config)
         else (s, tmpAddr, crc, crcEeprom, config))"

definition readSettingsFromEeprom ::
  "(32 word \<Rightarrow> 'f) \<Rightarrow> nat \<Rightarrow> eeprom \<Rightarrow> 'f TLSensors \<Rightarrow> 'f TLSensors" where
  "readSettingsFromEeprom u2f E2END e s =
     (let (s, tmpAddr, crc, crcEeprom, config) = readSettingsVerify u2f E2END e s
      in if error s = 0 then
           let addr = tmpAddr;
               (s, addr, crc) =
                 fold (\<lambda>n (s, addr, crc). readSensorSettingFromEeprom u2f e n addr crc True s)
                      [0 ..< unat (nSensors s)] (s, addr, crc);
               b = (config AND TL_EEPROM_CONFIG_ENABLE_SLEWRATE_LIMITER \<noteq> 0)
           in fold (\<lambda>n s. s\<lparr>data := (data s)(n := (data s n)\<lparr>enableSlewrateLimiter := b\<rparr>)\<rparr>)
                   [0 ..< unat (nSensors s)] s
         else s)"


subsection \<open>Measurement schedule\<close>

text \<open>
  \<^verbatim>\<open>addChannel\<close>. \<open>r\<close> is the value that \<^verbatim>\<open>random(0, length)\<close> returns in this call (a
  value in \<open>[0, length)\<close> by the contract of the random source). The loop probes the
  positions \<open>(n + r) % length\<close> for \<open>n = 0, 1, ...\<close> and stops at the first one that holds
  the sentinel 255; \<^verbatim>\<open>error\<close> is set to 0 if one was found and to -1 otherwise.
\<close>

definition addChannel :: "nat \<Rightarrow> 8 word \<Rightarrow> 'f TLSensors \<Rightarrow> 'f TLSensors" where
  "addChannel r ch s =
     (let length = (ucast (nSensors s) * ucast (nMeasurementsPerSensor s) :: 16 word)
      in case find (\<lambda>n. scanOrder s ! ((n + r) mod unat length) = 255) [0 ..< unat length] of
           None \<Rightarrow> s\<lparr>error := -1\<rparr>
         | Some n \<Rightarrow> s\<lparr>scanOrder := (scanOrder s)[(n + r) mod unat length := ch],
                        error := 0\<rparr>)"

text \<open>
  \<^verbatim>\<open>initScanOrder\<close>. \<open>rnd i\<close> is the value of the \<open>i\<close>-th call of \<^verbatim>\<open>random\<close> after
  \<^verbatim>\<open>randomSeed(nMeasurementsPerSensor)\<close>; the call for round \<open>k\<close> and sensor \<open>n\<close> is call
  number \<open>k * nSensors + n\<close>.
\<close>

definition initScanOrder :: "(nat \<Rightarrow> nat) \<Rightarrow> 'f TLSensors \<Rightarrow> 'f TLSensors" where
  "initScanOrder rnd s =
     (let length = (ucast (nSensors s) * ucast (nMeasurementsPerSensor s) :: 16 word);
          s = s\<lparr>scanOrder := fold (\<lambda>pos so. so[pos := 255]) [0 ..< unat length] (scanOrder s)\<rparr>
      in fold (\<lambda>k s.
                 fold (\<lambda>n s. addChannel (rnd (k * unat (nSensors s) + n)) (of_nat n) s)
                      [0 ..< unat (nSensors s)] s)
              [0 ..< unat (nMeasurementsPerSensor s)] s)"


text \<open>
  The state of the schedule while \<^verbatim>\<open>initScanOrder\<close> fills it, after \<open>k\<close> complete rounds and
  the first \<open>j\<close> sensors of the next round: the first \<open>nSensors * nMeasurementsPerSensor\<close>
  slots hold every sensor index \<open>k\<close> times, the first \<open>j\<close> indices once more, and the
  sentinel 255 in all other slots. (Used in the proof of the coverage theorem.)
\<close>

definition scheduleFilled ::
  "8 word \<Rightarrow> 8 word \<Rightarrow> nat \<Rightarrow> nat \<Rightarrow> nat \<Rightarrow> 'f TLSensors \<Rightarrow> bool" where
  "scheduleFilled nS nM len k j s \<longleftrightarrow>
     nSensors s = nS \<and> nMeasurementsPerSensor s = nM \<and> length (scanOrder s) = len \<and>
     mset (take (unat nS * unat nM) (scanOrder s)) =
       mset (concat (replicate k (map of_nat [0 ..< unat nS]))) +
       mset (take j (map of_nat [0 ..< unat nS])) +
       replicate_mset (unat nS * unat nM - (k * unat nS + j)) 255 \<and>
     (0 < k * unat nS + j \<longrightarrow> error s = 0)"

section \<open>Concrete controllers and stores\<close>

text \<open>
  A sensor record with the given four thresholds and the defaults of \<^verbatim>\<open>setDefaults\<close> in the
  other members, in state \<^verbatim>\<open>buttonStatePreCalibrating\<close>, and a controller over a given
  sensor array, as the constructor leaves it.
\<close>

definition sensorWith :: "'f \<Rightarrow> 'f \<Rightarrow> 'f \<Rightarrow> 'f \<Rightarrow> ('f::zero) TLStruct" where
  "sensorWith r2a a2r a2p p2a =
     \<lparr> direction = directionPositive, sampleType = sampleTypeDifferential,
       releasedToApproachedThreshold = r2a, approachedToReleasedThreshold = a2r,
       approachedToPressedThreshold = a2p, pressedToApproachedThreshold = p2a,
       releasedToApproachedTime = 10, approachedToReleasedTime = 10,
       approachedToPressedTime = 10, pressedToApproachedTime = 10,
       enableSlewrateLimiter = False, preCalibrationTime = 100, calibrationTime = 500,
       approachedTimeout = 300000, pressedTimeout = 300000, filterCoeff = 16,
       forceCalibrationWhenReleasingFromApproached = 0,
       forceCalibrationWhenApproachingFromReleased = 0,
       forceCalibrationWhenApproachingFromPressed = 0,
       forceCalibrationWhenPressing = 0,
       setOffsetValueManually = False, disableUpdateIfAnyButtonIsApproached = False,
       disableUpdateIfAnyButtonIsPressed = False, offsetValue = 0,
       enableTouchStateMachine = True, enableNoisePowerMeasurement = False,
       sensorMeasurementsPerSensor = 16, raw = 0, value' = 0, avg = 0, delta = 0,
       maxDelta = 0, noisePower = 0, buttonState = buttonStatePreCalibrating,
       buttonStateLabel = ''PreCalibrating'', buttonIsCalibrating = False,
       buttonIsReleased = False, buttonIsApproached = False, buttonIsPressed = False,
       forcedCal = False, counter = 0, noiseCounter = 0, lastSampledAtTime = 0,
       stateChangedAtTime = 0, slewrateFirstSample = False, stateIsBeingChanged = False \<rparr>"

definition controllerOf :: "8 word \<Rightarrow> (nat \<Rightarrow> 'f TLStruct) \<Rightarrow> 'f TLSensors" where
  "controllerOf n d =
     \<lparr> data = d, nSensors = n, enableReadSettingsFromEeprom = True, eepromOffset = 0,
       scanOrder = [], nMeasurementsPerSensor = 16, error = 0, useCustomScanOrder = False,
       anyButtonIsApproached = False, anyButtonIsPressed = False \<rparr>"

text \<open>
  For the codec a \<^verbatim>\<open>float\<close> is the 32 bits that \<^verbatim>\<open>memcpy\<close> copies, so both \<^verbatim>\<open>memcpy\<close> calls
  are \<open>id\<close>: \<open>0x41200000\<close>, \<open>0x41000000\<close>, \<open>0x42960000\<close> and \<open>0x42700000\<close> are the IEEE-754
  single-precision patterns of 10.0, 8.0, 75.0 and 60.0, and \<open>0x42480000\<close>, \<open>0x42200000\<close>,
  \<open>0x43160000\<close>, \<open>0x42F00000\<close> those of 50.0, 40.0, 150.0 and 120.0.
\<close>

definition tunedController :: "(32 word) TLSensors" where
  "tunedController =
     controllerOf 4 (\<lambda>_. sensorWith 0x41200000 0x41000000 0x42960000 0x42700000)"

definition freshController :: "(32 word) TLSensors" where
  "freshController =
     controllerOf 4 (\<lambda>_. sensorWith 0x42480000 0x42200000 0x43160000 0x42F00000)"

definition erasedEeprom :: eeprom where
  "erasedEeprom = (\<lambda>_. 0xFF)"

text \<open>
  \<open>writtenImage\<close> is the content of an erased EEPROM after \<open>tunedController\<close> was written
  to it (lemma \<open>written_eq\<close> below): 68 bytes from address 0 on.
\<close>

definition writtenImage :: eeprom where
  "writtenImage = (\<lambda>_. 0xFF)
       (0 := 0xC7, 1 := 0x03, 2 := 0x41, 3 := 0x20, 4 := 0x00, 5 := 0x00, 6 := 0x41, 7
        := 0x00, 8 := 0x00, 9 := 0x00, 10 := 0x42, 11 := 0x96, 12 := 0x00, 13 := 0x00,
        14 := 0x42, 15 := 0x70, 16 := 0x00, 17 := 0x00, 18 := 0x41, 19 := 0x20, 20 :=
        0x00, 21 := 0x00, 22 := 0x41, 23 := 0x00, 24 := 0x00, 25 := 0x00, 26 := 0x42, 27
        := 0x96, 28 := 0x00, 29 := 0x00, 30 := 0x42, 31 := 0x70, 32 := 0x00, 33 := 0x00,
        34 := 0x41, 35 := 0x20, 36 := 0x00, 37 := 0x00, 38 := 0x41, 39 := 0x00, 40 :=
        0x00, 41 := 0x00, 42 := 0x42, 43 := 0x96, 44 := 0x00, 45 := 0x00, 46 := 0x42, 47
        := 0x70, 48 := 0x00, 49 := 0x00, 50 := 0x41, 51 := 0x20, 52 := 0x00, 53 := 0x00,
        54 := 0x41, 55 := 0x00, 56 := 0x00, 57 := 0x00, 58 := 0x42, 59 := 0x96, 60 :=
        0x00, 61 := 0x00, 62 := 0x42, 63 := 0x70, 64 := 0x00, 65 := 0x00, 66 := 0xBC, 67
        := 0x93)"

text \<open>
  A controller with one sensor, and a record for it as \<^verbatim>\<open>readSettingsFromEeprom\<close> accepts
  it: key, descriptor \<open>0\<close>, config byte \<open>0x80\<close>, the thresholds 10.0, 8.0, 75.0, 60.0 and the
  CRC that the read path computes. \<open>corruptedImage\<close> is that record with one threshold byte
  changed.
\<close>

definition singleController :: "(32 word) TLSensors" where
  "singleController =
     controllerOf 1 (\<lambda>_. sensorWith 0x42480000 0x42200000 0x43160000 0x42F00000)"

definition acceptedImage :: eeprom where
  "acceptedImage = (\<lambda>_. 0xFF)
       (0 := 0xC7, 1 := 0x00, 2 := 0x80,
        3 := 0x41, 4 := 0x20, 5 := 0x00, 6 := 0x00, 7 := 0x41, 8 := 0x00, 9 := 0x00, 10 := 0x00,
        11 := 0x42, 12 := 0x96, 13 := 0x00, 14 := 0x00, 15 := 0x42, 16 := 0x70, 17 := 0x00,
        18 := 0x00, 19 := 0x11, 20 := 0xA2)"

definition corruptedImage :: eeprom where
  "corruptedImage = acceptedImage(11 := 0x43)"


text \<open>
  A controller with two sensors and two measurements per sensor, whose schedule array
  holds arbitrary values, and a sequence of random draws.
\<close>

definition scheduleExample :: "(32 word) TLSensors" where
  "scheduleExample =
     (controllerOf 2 (\<lambda>_. sensorWith 0 0 0 0))\<lparr>nMeasurementsPerSensor := 2,
        scanOrder := [7, 7, 7, 7]\<rparr>"

definition drawsExample :: "nat \<Rightarrow> nat" where
  "drawsExample i = (7 * i + 3) mod 4"

section \<open>Evaluation support\<close>

text \<open>
  \<open>crcRange e addr n crc\<close> feeds the \<open>n\<close> bytes stored from \<open>addr\<close> on into the CRC.
  \<open>lit\<close> marks a literal: the evaluation rules for the CRC only fire on literals.
\<close>

fun crcRange :: "eeprom \<Rightarrow> int \<Rightarrow> nat \<Rightarrow> 16 word \<Rightarrow> 16 word" where
  "crcRange e addr 0 crc = crc"
| "crcRange e addr (Suc n) crc = crcRange e (addr + 1) n (crcUpdate crc (e addr))"

definition lit :: "'a \<Rightarrow> bool" where
  "lit x = True"

section \<open>The persistence codec: lemmas\<close>

lemma lit_simps: "lit (numeral n)" "lit 0" "lit 1"
  by (simp_all add: lit_def)

lemma lit_cong: "lit x = lit x"
  by (rule refl)

lemma crcStep_lit:
  "lit c \<Longrightarrow> lit i \<Longrightarrow> lit crc \<Longrightarrow> crcStep c i crc =
     (if (crc AND 0x8000 \<noteq> 0) \<noteq> (c AND i \<noteq> 0)
      then push_bit 1 crc XOR 0x1021 else push_bit 1 crc)"
  by (auto simp: crcStep_def Let_def)

lemma crcUpdate_lit:
  "lit crc \<Longrightarrow> lit c \<Longrightarrow> crcUpdate crc c =
   crcStep c 1 (crcStep c 2 (crcStep c 4 (crcStep c 8
   (crcStep c 0x10 (crcStep c 0x20 (crcStep c 0x40 (crcStep c 0x80 crc))))))) AND 0xffff"
  by (simp add: crcUpdate_def)

lemmas crc_eval = lit_simps crcStep_lit crcUpdate_lit

lemma crcRange_numeral:
  "crcRange e addr (numeral k) crc =
     crcRange e (addr + 1) (pred_numeral k) (crcUpdate crc (e addr))"
  by (simp add: numeral_eq_Suc)

lemma crcRange_add:
  "crcRange e addr (m + n) crc = crcRange e (addr + int m) n (crcRange e addr m crc)"
  by (induction m arbitrary: addr crc) (simp_all add: add.assoc)

lemma crcRange_16:
  "crcRange e addr 16 crc =
     crcUpdate (crcUpdate (crcUpdate (crcUpdate (crcUpdate (crcUpdate (crcUpdate (crcUpdate
     (crcUpdate (crcUpdate (crcUpdate (crcUpdate (crcUpdate (crcUpdate (crcUpdate (crcUpdate crc
       (e addr)) (e (addr + 1))) (e (addr + 2))) (e (addr + 3))) (e (addr + 4))) (e (addr + 5)))
       (e (addr + 6))) (e (addr + 7))) (e (addr + 8))) (e (addr + 9))) (e (addr + 10)))
       (e (addr + 11))) (e (addr + 12))) (e (addr + 13))) (e (addr + 14))) (e (addr + 15))"
  by (simp add: numeral_eq_Suc add.commute)

lemma upt_0_4: "[0..<4] = [0, 1, 2, 3::nat]"
  by (simp add: upt_rec)

lemma EEPROM_update_eq: "EEPROM_update e a b = e(a := b)"
  by (auto simp: EEPROM_update_def)

lemma readFloat_eq:
  "readFloatFromEeprom u2f e addr crc =
    (u2f (push_bit 24 (ucast (e addr)) OR push_bit 16 (ucast (e (addr + 1))) OR
          push_bit 8 (ucast (e (addr + 2))) OR ucast (e (addr + 3))),
     addr + 4,
     crcUpdate (crcUpdate (crcUpdate (crcUpdate crc (e addr)) (e (addr + 1))) (e (addr + 2)))
       (e (addr + 3)))"
  by (simp add: readFloatFromEeprom_def Let_def ac_simps)

lemma writeFloat_eq:
  "writeFloatToEeprom f2u f e addr crc =
    (e(addr := ucast (drop_bit 24 (f2u f) AND 0xFF),
       addr + 1 := ucast (drop_bit 16 (f2u f) AND 0xFF),
       addr + 2 := ucast (drop_bit 8 (f2u f) AND 0xFF),
       addr + 3 := ucast (f2u f AND 0xFF)),
     addr + 4,
     crcUpdate (crcUpdate (crcUpdate (crcUpdate crc
       (ucast (drop_bit 24 (f2u f) AND 0xFF))) (ucast (drop_bit 16 (f2u f) AND 0xFF)))
       (ucast (drop_bit 8 (f2u f) AND 0xFF))) (ucast (f2u f AND 0xFF)))"
  by (simp add: writeFloatToEeprom_def Let_def EEPROM_update_eq add.commute)

lemma readSensor_dummy:
  "readSensorSettingFromEeprom u2f e n addr crc False s = (s, addr + 16, crcRange e addr 16 crc)"
  by (simp add: readSensorSettingFromEeprom_def readFloat_eq crcRange_16 Let_def add.commute)

lemma dummy_pass:
  "fold (\<lambda>n (s, addr, crc). readSensorSettingFromEeprom u2f e n addr crc False s)
        [0 ..< N] (s, addr, crc)
     = (s, addr + 16 * int N, crcRange e addr (16 * N) crc)"
proof (induction N)
  case 0
  show ?case by simp
next
  case (Suc N)
  have a: "crcRange e addr (16 * Suc N) crc
             = crcRange e (addr + 16 * int N) 16 (crcRange e addr (16 * N) crc)"
  proof -
    have "16 * Suc N = 16 * N + 16" by simp
    then show ?thesis by (simp only: crcRange_add of_nat_mult of_nat_numeral)
  qed
  have b: "addr + 16 * int (Suc N) = addr + 16 * int N + 16" by simp
  show ?case
    unfolding a b using Suc by (simp add: readSensor_dummy)
qed

lemma readSettingsVerify_eq:
  assumes "error s = 0"
    and "(uint (nSensors s) - 1) AND 0x1F = uint (nSensors s) - 1"
    and "\<not> eepromOffset s + uint (eepromSizeRequired s) > uint (EEPROM_length E2END)"
    and "e (eepromOffset s) = 0xC7"
    and "drop_bit 5 (uint (e (eepromOffset s + 1))) AND 7 = 0"
    and "(uint (e (eepromOffset s + 1)) AND 0x1F) + 1 = uint (nSensors s)"
  shows "readSettingsVerify u2f E2END e s =
    (let off = eepromOffset s; N = unat (nSensors s);
         crc = crcRange e (off + 3) (16 * N)
                 (crcUpdate (crcUpdate (crcUpdate 0 (e off)) (e (off + 1))) (e (off + 1)));
         crcEeprom = push_bit 8 (ucast (e (off + 3 + 16 * int N))) OR
                       ucast (e (off + 4 + 16 * int N))
     in (if crc \<noteq> crcEeprom then s\<lparr>error := -5\<rparr> else s, off + 3, crc, crcEeprom,
         e (off + 2)))"
  using assms
  by (simp add: readSettingsVerify_def Let_def dummy_pass add_ac)

lemma readSensor_error:
  "error (fst (readSensorSettingFromEeprom u2f e n addr crc b s)) = error s"
  by (simp add: readSensorSettingFromEeprom_def readFloat_eq Let_def)

lemma readSensor_nSensors:
  "nSensors (fst (readSensorSettingFromEeprom u2f e n addr crc b s)) = nSensors s"
  by (simp add: readSensorSettingFromEeprom_def readFloat_eq Let_def)

lemma apply_pass_error:
  "error (fst (fold (\<lambda>n (s, addr, crc). readSensorSettingFromEeprom u2f e n addr crc True s)
        ns (s, addr, crc))) = error s"
proof (induction ns arbitrary: s addr crc)
  case Nil
  show ?case by simp
next
  case (Cons n ns)
  obtain s' addr' crc' where r: "readSensorSettingFromEeprom u2f e n addr crc True s = (s', addr', crc')"
    by (cases "readSensorSettingFromEeprom u2f e n addr crc True s") auto
  have "error s' = error s"
    using readSensor_error[of u2f e n addr crc True s] r by simp
  then show ?case using Cons[of s' addr' crc'] r by simp
qed

lemma slew_loop_error:
  "error (fold (\<lambda>n s. s\<lparr>data := (data s)(n := (data s n)\<lparr>enableSlewrateLimiter := b\<rparr>)\<rparr>) ns s) = error s"
  by (induction ns arbitrary: s) simp_all

lemma verify_data: "data (fst (readSettingsVerify u2f E2END e s)) = data s"
  by (simp add: readSettingsVerify_def Let_def dummy_pass split: prod.splits)

lemma verify_ok:
  assumes "error (fst (readSettingsVerify u2f E2END e s)) = 0"
  shows "fst (snd (snd (readSettingsVerify u2f E2END e s))) = fst (snd (snd (snd (readSettingsVerify u2f E2END e s))))
       \<and> e (eepromOffset s) = TL_EEPROM_KEY
       \<and> drop_bit 5 (uint (e (eepromOffset s + 1))) AND 7 = 0
       \<and> (uint (e (eepromOffset s + 1)) AND 0x1F) + 1 = uint (nSensors s)
       \<and> error s = 0"
proof (cases "error s = 0 \<and> (uint (nSensors s) - 1) AND 0x1F = uint (nSensors s) - 1
    \<and> \<not> eepromOffset s + uint (eepromSizeRequired s) > uint (EEPROM_length E2END)
    \<and> e (eepromOffset s) = 0xC7
    \<and> drop_bit 5 (uint (e (eepromOffset s + 1))) AND 7 = 0
    \<and> (uint (e (eepromOffset s + 1)) AND 0x1F) + 1 = uint (nSensors s)")
  case True
  then show ?thesis
    using assms by (simp add: readSettingsVerify_eq Let_def split: if_splits)
next
  case False
  then have "error (fst (readSettingsVerify u2f E2END e s)) \<noteq> 0"
    by (auto simp: readSettingsVerify_def Let_def eepromSizeRequired_def split: if_splits)
  with assms show ?thesis by simp
qed

lemma read_error_data:
  assumes "error (readSettingsFromEeprom u2f E2END e s) \<noteq> 0"
  shows "readSettingsFromEeprom u2f E2END e s = fst (readSettingsVerify u2f E2END e s)"
proof -
  obtain v tmpAddr crc crcEeprom config
    where v: "readSettingsVerify u2f E2END e s = (v, tmpAddr, crc, crcEeprom, config)"
    by (cases "readSettingsVerify u2f E2END e s") auto
  show ?thesis
  proof (cases "error v = 0")
    case True
    have "error (readSettingsFromEeprom u2f E2END e s) = 0"
      using True v
      by (simp add: readSettingsFromEeprom_def Let_def slew_loop_error apply_pass_error split: prod.splits)
         (metis apply_pass_error fst_conv)
    with assms show ?thesis by simp
  next
    case False
    then show ?thesis using v by (simp add: readSettingsFromEeprom_def)
  qed
qed



lemmas codec_eval =
  writeSettingsToEeprom_def writeSensorSettingToEeprom_def writeFloat_eq EEPROM_update_eq
  eepromSizeRequired_def EEPROM_length_def upt_0_4 crc_eval
  tunedController_def freshController_def controllerOf_def sensorWith_def erasedEeprom_def

lemma written_eq:
  "writeSettingsToEeprom id 1023 tunedController erasedEeprom = (tunedController, writtenImage)"
  apply (simp add: codec_eval Let_def cong: lit_cong)
  unfolding writtenImage_def
  apply (rule refl)
  done

lemma written_bytes:
  "map writtenImage (map int [0..<69]) =
     [0xC7, 0x03,
      0x41, 0x20, 0, 0,  0x41, 0, 0, 0,  0x42, 0x96, 0, 0,  0x42, 0x70, 0, 0,
      0x41, 0x20, 0, 0,  0x41, 0, 0, 0,  0x42, 0x96, 0, 0,  0x42, 0x70, 0, 0,
      0x41, 0x20, 0, 0,  0x41, 0, 0, 0,  0x42, 0x96, 0, 0,  0x42, 0x70, 0, 0,
      0x41, 0x20, 0, 0,  0x41, 0, 0, 0,  0x42, 0x96, 0, 0,  0x42, 0x70, 0, 0,
      0xBC, 0x93, 0xFF]"
  by (simp add: upt_rec writtenImage_def)

lemma written_rejected:
  "error (readSettingsFromEeprom id 1023 writtenImage freshController) = -5"
  apply (simp add: readSettingsFromEeprom_def)
  apply (subst readSettingsVerify_eq)
  apply (simp_all add: writtenImage_def freshController_def controllerOf_def eepromSizeRequired_def EEPROM_length_def)
  apply (simp add: Let_def crcRange_numeral crc_eval cong: lit_cong)
  done

lemmas image_eval = acceptedImage_def corruptedImage_def
  singleController_def controllerOf_def sensorWith_def eepromSizeRequired_def EEPROM_length_def

lemma corrupted_rejected: "error (readSettingsFromEeprom id 1023 corruptedImage singleController) = -5"
  apply (simp add: readSettingsFromEeprom_def)
  apply (subst readSettingsVerify_eq)
  apply (simp_all add: image_eval)
  apply (simp add: Let_def crcRange_numeral crc_eval cong: lit_cong)
  done

lemma readSensor_apply_eq:
  "readSensorSettingFromEeprom u2f e n addr crc True s =
     (s\<lparr>data := (data s)(n := (data s n)\<lparr>
         releasedToApproachedThreshold :=
           u2f (push_bit 24 (ucast (e addr)) OR push_bit 16 (ucast (e (addr + 1))) OR
                push_bit 8 (ucast (e (addr + 2))) OR ucast (e (addr + 3))),
         approachedToReleasedThreshold :=
           u2f (push_bit 24 (ucast (e (addr + 4))) OR push_bit 16 (ucast (e (addr + 5))) OR
                push_bit 8 (ucast (e (addr + 6))) OR ucast (e (addr + 7))),
         approachedToPressedThreshold :=
           u2f (push_bit 24 (ucast (e (addr + 8))) OR push_bit 16 (ucast (e (addr + 9))) OR
                push_bit 8 (ucast (e (addr + 10))) OR ucast (e (addr + 11))),
         pressedToApproachedThreshold :=
           u2f (push_bit 24 (ucast (e (addr + 12))) OR push_bit 16 (ucast (e (addr + 13))) OR
                push_bit 8 (ucast (e (addr + 14))) OR ucast (e (addr + 15)))\<rparr>)\<rparr>,
      addr + 16, crcRange e addr 16 crc)"
  by (simp add: readSensorSettingFromEeprom_def readFloat_eq crcRange_16 Let_def add.commute)

lemma accepted_verify:
  "readSettingsVerify id 1023 acceptedImage singleController =
     (singleController, 3, 0x11A2, 0x11A2, 0x80)"
  apply (subst readSettingsVerify_eq)
  apply (simp_all add: image_eval)
  apply (simp add: Let_def crcRange_numeral crc_eval singleController_def controllerOf_def
           sensorWith_def cong: lit_cong)
  done

lemma accepted_read:
  "error (readSettingsFromEeprom id 1023 acceptedImage singleController) = 0 \<and>
   releasedToApproachedThreshold (data (readSettingsFromEeprom id 1023 acceptedImage singleController) 0) = 0x41200000 \<and>
   approachedToReleasedThreshold (data (readSettingsFromEeprom id 1023 acceptedImage singleController) 0) = 0x41000000 \<and>
   approachedToPressedThreshold (data (readSettingsFromEeprom id 1023 acceptedImage singleController) 0) = 0x42960000 \<and>
   pressedToApproachedThreshold (data (readSettingsFromEeprom id 1023 acceptedImage singleController) 0) = 0x42700000 \<and>
   enableSlewrateLimiter (data (readSettingsFromEeprom id 1023 acceptedImage singleController) 0)"
  apply (simp add: readSettingsFromEeprom_def accepted_verify)
  apply (simp add: readSensor_apply_eq Let_def singleController_def controllerOf_def
           acceptedImage_def)
  done


lemma accepted_layout_crc: "crcRange acceptedImage 0 19 0 \<noteq> 0x11A2"
  by (simp add: acceptedImage_def crcRange_numeral crc_eval cong: lit_cong)

section \<open>The persistence codec: claims\<close>

text \<open>
  Claim C1 (persistence round-trip). The claim says that writing the thresholds
  10.0, 8.0, 75.0, 60.0 of four sensors and reading them back into a fresh controller with
  four sensors reproduces the thresholds, with a matching CRC. On the code the round-trip
  fails: the write succeeds, the read of the written bytes ends with \<^verbatim>\<open>error = -5\<close>, and
  the fresh controller keeps the thresholds it had. (The write stores no config byte, so the
  reader takes the first threshold byte for it, reads every block one byte late and finds a
  different CRC.)
\<close>

theorem roundtrip_example_rejected:
  "error (fst (writeSettingsToEeprom id 1023 tunedController erasedEeprom)) = 0 \<and>
   error (readSettingsFromEeprom id 1023
            (snd (writeSettingsToEeprom id 1023 tunedController erasedEeprom))
            freshController) = -5 \<and>
   data (readSettingsFromEeprom id 1023
            (snd (writeSettingsToEeprom id 1023 tunedController erasedEeprom))
            freshController) = data freshController"
proof -
  have w: "writeSettingsToEeprom id 1023 tunedController erasedEeprom
             = (tunedController, writtenImage)"
    by (rule written_eq)
  have e: "error (readSettingsFromEeprom id 1023 writtenImage freshController) = -5"
    by (rule written_rejected)
  then have "readSettingsFromEeprom id 1023 writtenImage freshController
               = fst (readSettingsVerify id 1023 writtenImage freshController)"
    by (intro read_error_data) simp
  then have d: "data (readSettingsFromEeprom id 1023 writtenImage freshController)
                  = data freshController"
    by (simp add: verify_data)
  show ?thesis
    unfolding w using e d by (simp add: tunedController_def controllerOf_def)
qed

text \<open>
  Claim C2 (format and CRC coverage). The claim says that the written record is
  \<^verbatim>\<open>[key][descriptor][config][4 floats per sensor][crc16]\<close> and that both paths compute the
  CRC over every stored byte but the CRC itself. On the code neither holds. The bytes
  written for \<open>tunedController\<close> are the key, the descriptor, the 64 threshold bytes and
  the CRC, 68 bytes and no config byte (address 68 keeps the erased value). And the read
  path accepts \<open>acceptedImage\<close>, whose stored CRC is not the CRC of the 19 bytes before it:
  the reader feeds the descriptor byte twice and the config byte never.
\<close>

theorem stored_layout_example:
  "map (snd (writeSettingsToEeprom id 1023 tunedController erasedEeprom)) (map int [0..<69]) =
     [0xC7, 0x03,
      0x41, 0x20, 0, 0,  0x41, 0, 0, 0,  0x42, 0x96, 0, 0,  0x42, 0x70, 0, 0,
      0x41, 0x20, 0, 0,  0x41, 0, 0, 0,  0x42, 0x96, 0, 0,  0x42, 0x70, 0, 0,
      0x41, 0x20, 0, 0,  0x41, 0, 0, 0,  0x42, 0x96, 0, 0,  0x42, 0x70, 0, 0,
      0x41, 0x20, 0, 0,  0x41, 0, 0, 0,  0x42, 0x96, 0, 0,  0x42, 0x70, 0, 0,
      0xBC, 0x93, 0xFF] \<and>
   error (readSettingsFromEeprom id 1023 acceptedImage singleController) = 0 \<and>
   push_bit 8 (ucast (acceptedImage 19)) OR ucast (acceptedImage 20) = (0x11A2 :: 16 word) \<and>
   crcRange acceptedImage 0 19 0 \<noteq> 0x11A2"
proof -
  have "acceptedImage 19 = 0x11" "acceptedImage 20 = 0xA2"
    by (simp_all add: acceptedImage_def)
  then have "push_bit 8 (ucast (acceptedImage 19)) OR ucast (acceptedImage 20) = (0x11A2 :: 16 word)"
    by simp
  then show ?thesis
    unfolding written_eq using written_bytes accepted_read accepted_layout_crc by simp
qed

text \<open>
  Claim C3 (read atomicity). \<open>readSettingsVerify\<close>, the part of
  \<^verbatim>\<open>readSettingsFromEeprom\<close> that ends with the CRC test, leaves every sensor record as it
  was, and so does the dummy pass over one sensor block. If the key, the format version,
  the stored sensor count or the comparison of the recomputed with the stored CRC fails,
  the call ends with a non-zero \<^verbatim>\<open>error\<close>; and whenever it ends with a non-zero \<^verbatim>\<open>error\<close>
  the second pass has not run: the sensor records (the four thresholds and the slew-rate
  limiter flag among them) are the ones before the call.
\<close>

theorem readSettingsFromEeprom_atomic:
  "(case readSettingsVerify u2f E2END e s of (v, tmpAddr, crc, crcEeprom, config) \<Rightarrow>
      data v = data s \<and>
      (e (eepromOffset s) \<noteq> TL_EEPROM_KEY \<or>
       drop_bit TL_EEPROM_FORMAT_SHIFT (uint (e (eepromOffset s + 1))) AND TL_EEPROM_FORMAT_MASK
         \<noteq> TL_EEPROM_FORMAT_VERSION \<or>
       (uint (e (eepromOffset s + 1)) AND TL_EEPROM_N_SENSORS_MASK) + 1 \<noteq> uint (nSensors s) \<or>
       crc \<noteq> crcEeprom
       \<longrightarrow> error (readSettingsFromEeprom u2f E2END e s) \<noteq> 0)) \<and>
   fst (readSensorSettingFromEeprom u2f e n addr crc0 False s) = s \<and>
   (error (readSettingsFromEeprom u2f E2END e s) \<noteq> 0 \<longrightarrow>
      data (readSettingsFromEeprom u2f E2END e s) = data s)"
proof -
  obtain v tmpAddr crc crcEeprom config
    where v: "readSettingsVerify u2f E2END e s = (v, tmpAddr, crc, crcEeprom, config)"
    by (cases "readSettingsVerify u2f E2END e s") auto
  have a: "data v = data s"
    using verify_data[of u2f E2END e s] v by simp
  have r: "error v \<noteq> 0 \<Longrightarrow> readSettingsFromEeprom u2f E2END e s = v"
    using v by (simp add: readSettingsFromEeprom_def)
  have b: "error (readSettingsFromEeprom u2f E2END e s) \<noteq> 0"
    if "e (eepromOffset s) \<noteq> TL_EEPROM_KEY \<or>
        drop_bit 5 (uint (e (eepromOffset s + 1))) AND 7 \<noteq> 0 \<or>
        (uint (e (eepromOffset s + 1)) AND 0x1F) + 1 \<noteq> uint (nSensors s) \<or>
        crc \<noteq> crcEeprom"
  proof -
    have "error v \<noteq> 0"
      using verify_ok[of u2f E2END e s] v that by auto
    then show ?thesis using r by simp
  qed
  have c: "data (readSettingsFromEeprom u2f E2END e s) = data s"
    if "error (readSettingsFromEeprom u2f E2END e s) \<noteq> 0"
    using read_error_data[OF that] verify_data[of u2f E2END e s] by simp
  show ?thesis
    using a b c by (simp add: v readSensor_dummy)
qed

theorem readSettingsFromEeprom_atomic_witness:
  "fst (snd (snd (readSettingsVerify id 1023 corruptedImage singleController)))
     \<noteq> fst (snd (snd (snd (readSettingsVerify id 1023 corruptedImage singleController)))) \<and>
   error (readSettingsFromEeprom id 1023 corruptedImage singleController) \<noteq> 0 \<and>
   data (readSettingsFromEeprom id 1023 corruptedImage singleController) = data singleController"
proof -
  have e: "error (readSettingsFromEeprom id 1023 corruptedImage singleController) \<noteq> 0"
    by (simp add: corrupted_rejected)
  have k: "corruptedImage (eepromOffset singleController) = TL_EEPROM_KEY"
          "drop_bit 5 (uint (corruptedImage (eepromOffset singleController + 1))) AND 7 = 0"
          "(uint (corruptedImage (eepromOffset singleController + 1)) AND 0x1F) + 1
             = uint (nSensors singleController)"
          "error singleController = 0"
    by (simp_all add: image_eval)
  have "error (fst (readSettingsVerify id 1023 corruptedImage singleController)) \<noteq> 0"
    using e read_error_data[of id 1023 corruptedImage singleController] by simp
  moreover have "error (fst (readSettingsVerify id 1023 corruptedImage singleController)) = 0"
    if "fst (snd (snd (readSettingsVerify id 1023 corruptedImage singleController)))
         = fst (snd (snd (snd (readSettingsVerify id 1023 corruptedImage singleController))))"
    using that k
    by (subst readSettingsVerify_eq)
       (simp_all add: Let_def readSettingsVerify_eq eepromSizeRequired_def EEPROM_length_def
          singleController_def controllerOf_def split: if_splits)
  ultimately have n: "fst (snd (snd (readSettingsVerify id 1023 corruptedImage singleController)))
     \<noteq> fst (snd (snd (snd (readSettingsVerify id 1023 corruptedImage singleController))))"
    by blast
  show ?thesis
    using readSettingsFromEeprom_atomic[where ?u2f = id and ?E2END = 1023
            and ?e = corruptedImage and ?s = singleController] e n
    by (simp split: prod.splits)
qed

section \<open>The measurement schedule\<close>

lemma unat_ucast_8_16: "unat (ucast (a :: 8 word) :: 16 word) = unat a"
proof -
  have "unat a < 2 ^ 8"
    using unsigned_less[of a, where 'a = nat] by simp
  then have "unat a < 2 ^ 16" by simp
  then show ?thesis
    by (simp add: unsigned_ucast_eq take_bit_nat_eq_self)
qed

lemma schedule_length:
  "unat (ucast (a :: 8 word) * ucast (b :: 8 word) :: 16 word) = unat a * unat b"
proof -
  have "unat a < 256" "unat b < 256"
    using unsigned_less[of a, where 'a = nat] unsigned_less[of b, where 'a = nat] by simp_all
  then have "unat a * unat b < 256 * 256"
    by (intro mult_strict_mono) simp_all
  then have "unat (ucast a :: 16 word) * unat (ucast b :: 16 word) < 2 ^ LENGTH(16)"
    by (simp add: unat_ucast_8_16)
  then have "unat (ucast a * ucast b :: 16 word) = unat (ucast a :: 16 word) * unat (ucast b :: 16 word)"
    by (simp only: unat_mult_lem)
  then show ?thesis by (simp add: unat_ucast_8_16)
qed

lemma clear_slots:
  "L \<le> length xs \<Longrightarrow> fold (\<lambda>pos so. so[pos := v]) [0 ..< L] xs = replicate L v @ drop L xs"
proof (induction L)
  case 0
  show ?case by simp
next
  case (Suc L)
  then have "fold (\<lambda>pos so. so[pos := v]) [0 ..< Suc L] xs = (replicate L v @ drop L xs)[L := v]"
    by simp
  also have "\<dots> = replicate L v @ (drop L xs)[0 := v]"
    by (simp add: list_update_append)
  also have "(drop L xs)[0 := v] = v # drop (Suc L) xs"
    using Suc.prems Cons_nth_drop_Suc[of L xs, symmetric] by simp
  finally show ?case by (simp add: replicate_append_same)
qed


lemma probe_reaches:
  assumes "p < (L::nat)"
  shows "((p + L - r mod L) mod L + r) mod L = p"
proof -
  have m: "r mod L < L" using assms by simp
  have "((p + L - r mod L) mod L + r) mod L = (p + L - r mod L + r) mod L"
    by (simp add: mod_add_left_eq)
  also have "p + L - r mod L + r = p + L + (r - r mod L)"
    using m by simp
  also have "r - r mod L = L * (r div L)"
    by (simp add: minus_mod_eq_mult_div)
  also have "(p + L + L * (r div L)) mod L = p mod L"
    by (metis add.assoc mod_add_self2 mod_mult_self2)
  finally show ?thesis using assms by simp
qed

lemma addChannel_fills:
  assumes L: "L = unat (nSensors s) * unat (nMeasurementsPerSensor s)"
    and len: "L \<le> length (scanOrder s)"
    and ex: "255 \<in> set (take L (scanOrder s))"
  shows "\<exists>p < L. scanOrder s ! p = 255 \<and>
           addChannel r ch s = s\<lparr>scanOrder := (scanOrder s)[p := ch], error := 0\<rparr>"
proof -
  from ex obtain p where p: "p < L" "scanOrder s ! p = 255"
    using len by (auto simp: in_set_conv_nth)
  let ?P = "\<lambda>n. scanOrder s ! ((n + r) mod L) = 255"
  have "(p + L - r mod L) mod L < L" using p by simp
  moreover have "?P ((p + L - r mod L) mod L)"
    using p by (simp add: probe_reaches)
  ultimately have "find ?P [0 ..< L] \<noteq> None"
    by (auto simp: find_None_iff)
  then obtain n where n: "find ?P [0 ..< L] = Some n" by auto
  then have "?P n" "n < L"
    by (auto simp: find_Some_iff)
  then have "(n + r) mod L < L" "scanOrder s ! ((n + r) mod L) = 255"
    using p by simp_all
  moreover have "addChannel r ch s
      = s\<lparr>scanOrder := (scanOrder s)[(n + r) mod L := ch], error := 0\<rparr>"
    using n by (simp add: addChannel_def schedule_length L Let_def)
  ultimately show ?thesis by blast
qed

lemma mset_take_update:
  assumes "p < L" "L \<le> length xs"
  shows "mset (take L (xs[p := v])) = add_mset v (mset (take L xs) - {#xs ! p#})"
proof -
  have "take L (xs[p := v]) = (take L xs)[p := v]"
    by (simp add: take_update_swap)
  then show ?thesis
    using assms by (simp add: mset_update)
qed

lemma scheduleFilled_step:
  assumes inv: "scheduleFilled nS nM len k j s"
    and len: "unat nS * unat nM \<le> len"
    and k: "k < unat nM" and j: "j < unat nS"
  shows "scheduleFilled nS nM len k (Suc j) (addChannel r (of_nat j) s)"
proof -
  let ?L = "unat nS * unat nM"
  let ?chans = "map of_nat [0 ..< unat nS] :: 8 word list"
  have f: "nSensors s = nS" "nMeasurementsPerSensor s = nM" "length (scanOrder s) = len"
    and m: "mset (take ?L (scanOrder s)) =
       mset (concat (replicate k ?chans)) + mset (take j ?chans) +
       replicate_mset (?L - (k * unat nS + j)) 255"
    using inv by (simp_all add: scheduleFilled_def)
  have "k * unat nS + j < Suc k * unat nS" using j by simp
  also have "\<dots> \<le> unat nM * unat nS"
    using k by (intro mult_le_mono1) simp
  finally have room: "k * unat nS + j < ?L" by (simp add: mult.commute)
  then have "255 \<in># replicate_mset (?L - (k * unat nS + j)) (255 :: 8 word)"
    by simp
  then have "255 \<in># mset (take ?L (scanOrder s))"
    unfolding m by simp
  then have "255 \<in> set (take ?L (scanOrder s))" by simp
  then obtain p where p: "p < ?L" "scanOrder s ! p = 255"
    and a: "addChannel r (of_nat j) s = s\<lparr>scanOrder := (scanOrder s)[p := of_nat j], error := 0\<rparr>"
    using addChannel_fills[of ?L s r "of_nat j"] f len by auto
  have r: "replicate_mset (?L - (k * unat nS + j)) (255 :: 8 word)
            = add_mset 255 (replicate_mset (?L - (k * unat nS + Suc j)) 255)"
  proof -
    have "?L - (k * unat nS + j) = Suc (?L - (k * unat nS + Suc j))"
      using room by simp
    then show ?thesis by simp
  qed
  have t: "take (Suc j) ?chans = take j ?chans @ [of_nat j]"
    using j by (simp add: take_Suc_conv_app_nth)
  have "mset (take ?L ((scanOrder s)[p := of_nat j]))
          = add_mset (of_nat j) (mset (take ?L (scanOrder s)) - {#255#})"
    using mset_take_update[of p ?L "scanOrder s" "of_nat j"] p f len by simp
  also have "\<dots> = mset (concat (replicate k ?chans)) + mset (take (Suc j) ?chans) +
       replicate_mset (?L - (k * unat nS + Suc j)) 255"
    unfolding m r t by simp
  finally show ?thesis
    using f by (simp add: scheduleFilled_def a)
qed


lemma scheduleFilled_round:
  assumes inv: "scheduleFilled nS nM len k 0 s"
    and len: "unat nS * unat nM \<le> len" and k: "k < unat nM" and j: "j \<le> unat nS"
  shows "scheduleFilled nS nM len k j
           (fold (\<lambda>n s. addChannel (rnd (k * unat (nSensors s) + n)) (of_nat n) s) [0 ..< j] s)"
  using j
proof (induction j)
  case 0
  show ?case using inv by simp
next
  case (Suc j)
  then have "scheduleFilled nS nM len k j
           (fold (\<lambda>n s. addChannel (rnd (k * unat (nSensors s) + n)) (of_nat n) s) [0 ..< j] s)"
    by simp
  then show ?case
    using scheduleFilled_step[OF _ len k, of j] Suc.prems by simp
qed

lemma scheduleFilled_next:
  assumes "scheduleFilled nS nM len k (unat nS) s"
  shows "scheduleFilled nS nM len (Suc k) 0 s"
  using assms by (simp add: scheduleFilled_def add.commute)

lemma scheduleFilled_rounds:
  assumes inv: "scheduleFilled nS nM len 0 0 s"
    and len: "unat nS * unat nM \<le> len" and k: "k \<le> unat nM"
  shows "scheduleFilled nS nM len k 0
           (fold (\<lambda>k s. fold (\<lambda>n s. addChannel (rnd (k * unat (nSensors s) + n)) (of_nat n) s)
                            [0 ..< unat (nSensors s)] s) [0 ..< k] s)"
  using k
proof (induction k)
  case 0
  show ?case using inv by simp
next
  case (Suc k)
  let ?t = "fold (\<lambda>k s. fold (\<lambda>n s. addChannel (rnd (k * unat (nSensors s) + n)) (of_nat n) s)
                            [0 ..< unat (nSensors s)] s) [0 ..< k] s"
  have t: "scheduleFilled nS nM len k 0 ?t" using Suc by simp
  then have n: "nSensors ?t = nS" by (simp add: scheduleFilled_def)
  have "scheduleFilled nS nM len k (unat nS)
          (fold (\<lambda>n s. addChannel (rnd (k * unat (nSensors s) + n)) (of_nat n) s) [0 ..< unat nS] ?t)"
    using scheduleFilled_round[OF t len, of "unat nS"] Suc.prems by simp
  then show ?case
    using n by (simp add: scheduleFilled_next)
qed

lemma scheduleFilled_init:
  assumes "unat (nSensors s) * unat (nMeasurementsPerSensor s) \<le> length (scanOrder s)"
  shows "scheduleFilled (nSensors s) (nMeasurementsPerSensor s) (length (scanOrder s)) 0 0
           (s\<lparr>scanOrder := fold (\<lambda>pos so. so[pos := 255])
                 [0 ..< unat (nSensors s) * unat (nMeasurementsPerSensor s)] (scanOrder s)\<rparr>)"
  using assms by (simp add: scheduleFilled_def clear_slots)

lemma initScanOrder_filled:
  assumes "unat (nSensors s) * unat (nMeasurementsPerSensor s) \<le> length (scanOrder s)"
  shows "scheduleFilled (nSensors s) (nMeasurementsPerSensor s) (length (scanOrder s))
           (unat (nMeasurementsPerSensor s)) 0 (initScanOrder rnd s)"
  using scheduleFilled_rounds[OF scheduleFilled_init[OF assms], of "unat (nMeasurementsPerSensor s)" rnd] assms
  by (simp add: initScanOrder_def schedule_length Let_def)

lemma of_nat_8_inj:
  assumes "a < 256" "b < 256" "(of_nat a :: 8 word) = of_nat b"
  shows "a = b"
  using assms by (simp add: word_of_nat_eq_iff take_bit_nat_eq_self)

lemma count_channels:
  assumes "c < n" "n \<le> 255"
  shows "count (mset (map of_nat [0 ..< n] :: 8 word list)) (of_nat c) = 1"
proof -
  have "inj_on (of_nat :: nat \<Rightarrow> 8 word) {0 ..< n}"
    using assms by (intro inj_onI of_nat_8_inj) auto
  then have "distinct (map of_nat [0 ..< n] :: 8 word list)"
    by (simp add: distinct_map)
  moreover have "(of_nat c :: 8 word) \<in> set (map of_nat [0 ..< n])"
    using assms by auto
  ultimately show ?thesis
    by (simp add: distinct_count_atmost_1)
qed

lemma count_concat_replicate:
  "count (mset (concat (replicate k xs))) x = k * count (mset xs) x"
  by (induction k) simp_all

lemma sentinel_not_channel:
  assumes "n \<le> 255"
  shows "(255 :: 8 word) \<notin> set (map of_nat [0 ..< n])"
proof
  assume "(255 :: 8 word) \<in> set (map of_nat [0 ..< n])"
  then obtain c where c: "c < n" "(of_nat c :: 8 word) = 255" by auto
  then have "(of_nat c :: 8 word) = of_nat 255" by simp
  then have "c = 255"
    using c assms by (intro of_nat_8_inj) simp_all
  then show False using c assms by simp
qed


text \<open>
  Claim C4 (schedule coverage). For at least one sensor and at least one measurement per
  sensor, with \<open>nSensors * nMeasurementsPerSensor\<close> slots in the array, \<^verbatim>\<open>initScanOrder\<close>
  ends with \<^verbatim>\<open>error = 0\<close> whatever the random draws are; the schedule, the first
  \<open>nSensors * nMeasurementsPerSensor\<close> slots, has that length, holds every sensor index below
  \<open>nSensors\<close> exactly \<open>nMeasurementsPerSensor\<close> times and holds the sentinel 255 nowhere.
\<close>

theorem initScanOrder_coverage:
  assumes "1 \<le> unat (nSensors s)" and "1 \<le> unat (nMeasurementsPerSensor s)"
    and "unat (nSensors s) * unat (nMeasurementsPerSensor s) \<le> length (scanOrder s)"
  shows "error (initScanOrder rnd s) = 0 \<and>
         length (scanOrder (initScanOrder rnd s)) = length (scanOrder s) \<and>
         length (take (unat (nSensors s) * unat (nMeasurementsPerSensor s))
                   (scanOrder (initScanOrder rnd s)))
           = unat (nSensors s) * unat (nMeasurementsPerSensor s) \<and>
         (\<forall>c < unat (nSensors s).
            count_list (take (unat (nSensors s) * unat (nMeasurementsPerSensor s))
                          (scanOrder (initScanOrder rnd s))) (of_nat c)
              = unat (nMeasurementsPerSensor s)) \<and>
         255 \<notin> set (take (unat (nSensors s) * unat (nMeasurementsPerSensor s))
                       (scanOrder (initScanOrder rnd s)))"
proof -
  let ?nS = "unat (nSensors s)" and ?nM = "unat (nMeasurementsPerSensor s)"
  let ?s = "initScanOrder rnd s"
  let ?xs = "take (?nS * ?nM) (scanOrder ?s)"
  let ?chans = "map of_nat [0 ..< ?nS] :: 8 word list"
  have nS: "?nS \<le> 255"
    using unsigned_less[of "nSensors s", where 'a = nat] by simp
  have inv: "scheduleFilled (nSensors s) (nMeasurementsPerSensor s) (length (scanOrder s)) ?nM 0 ?s"
    by (rule initScanOrder_filled[OF assms(3)])
  have pos: "0 < ?nM * ?nS" using assms by simp
  have e: "error ?s = 0" and l: "length (scanOrder ?s) = length (scanOrder s)"
    using inv pos by (simp_all add: scheduleFilled_def)
  have m: "mset ?xs = mset (concat (replicate ?nM ?chans))"
    using inv by (simp add: scheduleFilled_def mult.commute)
  have c: "count_list ?xs (of_nat c) = ?nM" if "c < ?nS" for c
  proof -
    have "count_list ?xs (of_nat c) = count (mset ?xs) (of_nat c)"
      by (simp add: count_mset)
    also have "\<dots> = ?nM * count (mset ?chans) (of_nat c)"
      unfolding m by (rule count_concat_replicate)
    also have "\<dots> = ?nM"
      using count_channels[OF that nS] by simp
    finally show ?thesis .
  qed
  have "set ?xs = set_mset (mset ?xs)" by simp
  also have "\<dots> \<subseteq> set ?chans"
    unfolding m by (auto simp: in_set_replicate)
  finally have s: "255 \<notin> set ?xs"
    using sentinel_not_channel[OF nS] by blast
  show ?thesis
    using e l c s assms(3) by (simp add: l)
qed

theorem initScanOrder_coverage_witness:
  "1 \<le> unat (nSensors scheduleExample) \<and> 1 \<le> unat (nMeasurementsPerSensor scheduleExample) \<and>
   unat (nSensors scheduleExample) * unat (nMeasurementsPerSensor scheduleExample)
     \<le> length (scanOrder scheduleExample) \<and>
   error (initScanOrder drawsExample scheduleExample) = 0 \<and>
   length (scanOrder (initScanOrder drawsExample scheduleExample)) = 4 \<and>
   count_list (scanOrder (initScanOrder drawsExample scheduleExample)) 0 = 2 \<and>
   count_list (scanOrder (initScanOrder drawsExample scheduleExample)) 1 = 2 \<and>
   255 \<notin> set (scanOrder (initScanOrder drawsExample scheduleExample))"
proof -
  have h: "1 \<le> unat (nSensors scheduleExample)" "1 \<le> unat (nMeasurementsPerSensor scheduleExample)"
    "unat (nSensors scheduleExample) * unat (nMeasurementsPerSensor scheduleExample)
       \<le> length (scanOrder scheduleExample)"
    by (simp_all add: scheduleExample_def controllerOf_def)
  have v: "unat (nSensors scheduleExample) = 2" "unat (nMeasurementsPerSensor scheduleExample) = 2"
    "length (scanOrder scheduleExample) = 4"
    by (simp_all add: scheduleExample_def controllerOf_def)
  let ?xs = "scanOrder (initScanOrder drawsExample scheduleExample)"
  have t: "error (initScanOrder drawsExample scheduleExample) = 0 \<and> length ?xs = 4 \<and>
           (\<forall>c<2. count_list ?xs (of_nat c) = 2) \<and> 255 \<notin> set ?xs"
    using initScanOrder_coverage[OF h, of drawsExample] by (auto simp: v)
  have "0 < (2::nat)" "1 < (2::nat)" by simp_all
  then have "count_list ?xs (of_nat 0) = 2" "count_list ?xs (of_nat 1) = 2"
    using t by blast+
  then show ?thesis
    using t h by simp
qed

end
